theory Spec2Isabelle
  imports Main
begin

section \<open>The console\<close>

text \<open>
  Every observable effect of the program is a call of \<^verbatim>\<open>console.log\<close> with a string
  literal. The console is the list of the messages written so far, oldest first;
  \<^verbatim>\<open>console.log(msg)\<close> appends one message.
\<close>

type_synonym console = "string list"

definition console_log :: "string \<Rightarrow> console \<Rightarrow> console" where
  "console_log msg out = out @ [msg]"

section \<open>NavBarService (src/app/nav-bar.service.ts)\<close>

text \<open>
  The class declares no field and its constructor body is empty: an instance carries
  no data, so the type has a single value.
\<close>

datatype NavBarService = NavBarService

definition NavBarService_displayLinks :: "NavBarService \<Rightarrow> console \<Rightarrow> console" where
  "NavBarService_displayLinks this out = console_log ''Displaying default navbar links'' out"

definition NavBarService_ngOnDestroy :: "NavBarService \<Rightarrow> console \<Rightarrow> console" where
  "NavBarService_ngOnDestroy this out = console_log ''NavBarService cleanup performed!'' out"

section \<open>Classes, instances and method resolution\<close>

text \<open>
  The two component classes, the two member names of the capability interfaces
  \<^verbatim>\<open>LinkDisplay\<close> and \<^verbatim>\<open>NavBarAction\<close>/\<^verbatim>\<open>OnDestroy\<close>, and the \<^verbatim>\<open>extends\<close> clause.
\<close>

datatype klass = NavBarComponentComponent | CustomNavBarComponent

datatype operation = displayLinks | ngOnDestroy

datatype error = TypeError

fun superclass :: "klass \<Rightarrow> klass option" where
  "superclass NavBarComponentComponent = None"
| "superclass CustomNavBarComponent = Some NavBarComponentComponent"

fun depth :: "klass \<Rightarrow> nat" where
  "depth NavBarComponentComponent = 0"
| "depth CustomNavBarComponent = 1"

text \<open>
  The anchors of the \<^verbatim>\<open>template\<close> in each class's \<^verbatim>\<open>@Component\<close> decorator, as
  (label, target) pairs in document order. The template belongs to the class.
\<close>

fun template :: "klass \<Rightarrow> (string \<times> string) list" where
  "template NavBarComponentComponent =
     [(''Home'', ''#home''), (''About'', ''#about''),
      (''Services'', ''#services''), (''Contact'', ''#contact'')]"
| "template CustomNavBarComponent =
     [(''Home'', ''#home''), (''About'', ''#about''),
      (''Custom Link'', ''#custom''), (''Contact'', ''#contact'')]"

text \<open>
  An instance knows its class. In the revisions of the README before the last one the
  component classes have no field; in the last revision an instance also holds the
  injected service in its private field \<^verbatim>\<open>navBarService\<close>.
\<close>

record object =
  klass :: klass

record component = object +
  navBarService :: NavBarService

text \<open>
  A method body takes \<^verbatim>\<open>this\<close> and the console and returns both. A class table gives
  the members a class declares itself. A call \<^verbatim>\<open>obj.m()\<close> walks up the \<^verbatim>\<open>extends\<close>
  chain from the class of \<^verbatim>\<open>obj\<close> to the first class that declares \<^verbatim>\<open>m\<close>; when no
  class does, the member is undefined and calling it throws a \<^verbatim>\<open>TypeError\<close>.
\<close>

type_synonym 'o method_impl = "'o \<Rightarrow> console \<Rightarrow> 'o \<times> console"

type_synonym 'o class_table = "klass \<Rightarrow> operation \<Rightarrow> 'o method_impl option"

function lookup :: "'o class_table \<Rightarrow> klass \<Rightarrow> operation \<Rightarrow> 'o method_impl option" where
  "lookup tbl k m =
     (case tbl k m of
        Some f \<Rightarrow> Some f
      | None \<Rightarrow> (case superclass k of None \<Rightarrow> None | Some p \<Rightarrow> lookup tbl p m))"
  by pat_completeness auto
termination
proof (relation "measure (\<lambda>(tbl, k, m). depth k)")
  show "wf (measure (\<lambda>(tbl :: 'o class_table, k, m :: operation). depth k))"
    by simp
next
  fix tbl :: "'o class_table" and k p :: klass and m :: operation
  assume "superclass k = Some p"
  then show "((tbl, p, m), (tbl, k, m)) \<in> measure (\<lambda>(tbl, k, m). depth k)"
    by (cases k) simp_all
qed

declare lookup.simps [simp del]

definition invoke ::
  "'a object_scheme class_table \<Rightarrow> 'a object_scheme \<Rightarrow> operation \<Rightarrow> console
     \<Rightarrow> error + ('a object_scheme \<times> console)" where
  "invoke tbl this m out =
     (case lookup tbl (klass this) m of
        None \<Rightarrow> Inl TypeError
      | Some f \<Rightarrow> Inr (f this out))"

section \<open>The last (DIP) revision: the component classes under src/\<close>

text \<open>
  \<^verbatim>\<open>constructor(private navBarService: NavBarService) {}\<close> stores the service;
  the derived constructor only calls \<^verbatim>\<open>super(navBarService)\<close>.
\<close>

definition new_NavBarComponentComponent :: "NavBarService \<Rightarrow> component" where
  "new_NavBarComponentComponent svc =
     \<lparr>klass = NavBarComponentComponent, navBarService = svc\<rparr>"

definition new_CustomNavBarComponent :: "NavBarService \<Rightarrow> component" where
  "new_CustomNavBarComponent svc =
     (new_NavBarComponentComponent svc)\<lparr>klass := CustomNavBarComponent\<rparr>"

definition NavBarComponentComponent_ngOnDestroy :: "component method_impl" where
  "NavBarComponentComponent_ngOnDestroy this out =
     (this, console_log ''NavBarComponent cleanup performed!''
              (NavBarService_ngOnDestroy (navBarService this) out))"

definition NavBarComponentComponent_displayLinks :: "component method_impl" where
  "NavBarComponentComponent_displayLinks this out =
     (this, NavBarService_displayLinks (navBarService this) out)"

text \<open>
  The body of \<^verbatim>\<open>CustomNavBarComponent\<close> declares the constructor only (its
  \<^verbatim>\<open>ngOnDestroy\<close> is commented out), so the class table has no entry for it.
\<close>

fun methods_DIP :: "component class_table" where
  "methods_DIP NavBarComponentComponent displayLinks = Some NavBarComponentComponent_displayLinks"
| "methods_DIP NavBarComponentComponent ngOnDestroy = Some NavBarComponentComponent_ngOnDestroy"
| "methods_DIP CustomNavBarComponent m = None"

section \<open>The earlier revisions shown in README.md\<close>

text \<open>
  OCP revision (README lines 61-65) and ISP revision (lines 163-170) of the base class:
  \<^verbatim>\<open>ngOnDestroy\<close> logs one message; from the ISP revision on \<^verbatim>\<open>displayLinks\<close> logs the
  default-links message itself.
\<close>

definition NavBarComponentComponent_OCP_ngOnDestroy :: "'a object_scheme method_impl" where
  "NavBarComponentComponent_OCP_ngOnDestroy this out = (this, console_log ''Hell Bhie!'' out)"

definition NavBarComponentComponent_ISP_displayLinks :: "'a object_scheme method_impl" where
  "NavBarComponentComponent_ISP_displayLinks this out =
     (this, console_log ''Displaying default navbar links'' out)"

text \<open>
  LSP revision (README lines 87-92) and ISP revision (lines 117-126) of the derived
  class: \<^verbatim>\<open>ngOnDestroy\<close> is overridden, calls \<^verbatim>\<open>super.ngOnDestroy()\<close> and then logs;
  the ISP revision also overrides \<^verbatim>\<open>displayLinks\<close>.
\<close>

definition CustomNavBarComponent_LSP_ngOnDestroy :: "'a object_scheme method_impl" where
  "CustomNavBarComponent_LSP_ngOnDestroy this out =
     (case NavBarComponentComponent_OCP_ngOnDestroy this out of
        (this', out') \<Rightarrow>
          (this', console_log ''CustomNavBarComponent is being destroyed with extra cleanup!'' out'))"

definition CustomNavBarComponent_ISP_displayLinks :: "'a object_scheme method_impl" where
  "CustomNavBarComponent_ISP_displayLinks this out =
     (this, console_log ''Displaying custom navbar links'' out)"

fun methods_LSP :: "'a object_scheme class_table" where
  "methods_LSP NavBarComponentComponent ngOnDestroy = Some NavBarComponentComponent_OCP_ngOnDestroy"
| "methods_LSP NavBarComponentComponent displayLinks = None"
| "methods_LSP CustomNavBarComponent ngOnDestroy = Some CustomNavBarComponent_LSP_ngOnDestroy"
| "methods_LSP CustomNavBarComponent displayLinks = None"

fun methods_ISP :: "'a object_scheme class_table" where
  "methods_ISP NavBarComponentComponent ngOnDestroy = Some NavBarComponentComponent_OCP_ngOnDestroy"
| "methods_ISP NavBarComponentComponent displayLinks = Some NavBarComponentComponent_ISP_displayLinks"
| "methods_ISP CustomNavBarComponent ngOnDestroy = Some CustomNavBarComponent_LSP_ngOnDestroy"
| "methods_ISP CustomNavBarComponent displayLinks = Some CustomNavBarComponent_ISP_displayLinks"

text \<open>These revisions declare no constructor: an instance is its class alone.\<close>

definition new_object :: "klass \<Rightarrow> object" where
  "new_object k = \<lparr>klass = k\<rparr>"

section \<open>Sequences of invocations\<close>

text \<open>
  The service's two operations under one name, and a run of them on one service
  instance, in the order given.
\<close>

fun NavBarService_call :: "operation \<Rightarrow> NavBarService \<Rightarrow> console \<Rightarrow> console" where
  "NavBarService_call displayLinks this out = NavBarService_displayLinks this out"
| "NavBarService_call ngOnDestroy this out = NavBarService_ngOnDestroy this out"

fun service_run :: "operation list \<Rightarrow> NavBarService \<Rightarrow> console \<Rightarrow> console" where
  "service_run [] this out = out"
| "service_run (m # ms) this out = service_run ms this (NavBarService_call m this out)"

text \<open>
  The hosting environment holds component instances at addresses and invokes their
  operations one after the other on the same console; a call names the address of its
  receiver. A throw ends the run.
\<close>

type_synonym 'o store = "nat \<Rightarrow> 'o"

fun run ::
  "'a object_scheme class_table \<Rightarrow> (nat \<times> operation) list
     \<Rightarrow> 'a object_scheme store \<times> console \<Rightarrow> error + ('a object_scheme store \<times> console)" where
  "run tbl [] s = Inr s"
| "run tbl ((i, m) # calls) (insts, out) =
     (case invoke tbl (insts i) m out of
        Inl e \<Rightarrow> Inl e
      | Inr (this', out') \<Rightarrow> run tbl calls (insts(i := this'), out'))"

text \<open>What one invocation writes when it runs alone on an empty console.\<close>

definition effect_alone ::
  "'a object_scheme class_table \<Rightarrow> 'a object_scheme \<Rightarrow> operation \<Rightarrow> console" where
  "effect_alone tbl this m =
     (case invoke tbl this m [] of Inl e \<Rightarrow> [] | Inr (this', out') \<Rightarrow> out')"

section \<open>Method resolution in each revision\<close>

lemma lookup_declared: "tbl k m = Some f \<Longrightarrow> lookup tbl k m = Some f"
  by (subst lookup.simps) simp

lemma lookup_inherited:
  "tbl k m = None \<Longrightarrow> superclass k = Some p \<Longrightarrow> lookup tbl k m = lookup tbl p m"
  by (subst lookup.simps) simp

lemma lookup_undefined:
  "tbl k m = None \<Longrightarrow> superclass k = None \<Longrightarrow> lookup tbl k m = None"
  by (subst lookup.simps) simp

lemma lookup_DIP_displayLinks:
  "lookup methods_DIP k displayLinks = Some NavBarComponentComponent_displayLinks"
  by (cases k) (simp_all add: lookup_declared lookup_inherited)

lemma lookup_DIP_ngOnDestroy:
  "lookup methods_DIP k ngOnDestroy = Some NavBarComponentComponent_ngOnDestroy"
  by (cases k) (simp_all add: lookup_declared lookup_inherited)

lemma invoke_DIP_displayLinks:
  "invoke methods_DIP this displayLinks out =
     Inr (this, out @ [''Displaying default navbar links''])"
  by (simp add: invoke_def lookup_DIP_displayLinks NavBarComponentComponent_displayLinks_def
      NavBarService_displayLinks_def console_log_def)

lemma invoke_DIP_ngOnDestroy:
  "invoke methods_DIP this ngOnDestroy out =
     Inr (this, out @ [''NavBarService cleanup performed!'', ''NavBarComponent cleanup performed!''])"
  by (simp add: invoke_def lookup_DIP_ngOnDestroy NavBarComponentComponent_ngOnDestroy_def
      NavBarService_ngOnDestroy_def console_log_def)

lemma lookup_LSP_ngOnDestroy_custom:
  "lookup methods_LSP CustomNavBarComponent ngOnDestroy = Some CustomNavBarComponent_LSP_ngOnDestroy"
  by (simp add: lookup_declared)

lemma lookup_LSP_ngOnDestroy_base:
  "lookup methods_LSP NavBarComponentComponent ngOnDestroy = Some NavBarComponentComponent_OCP_ngOnDestroy"
  by (simp add: lookup_declared)

lemma lookup_ISP_ngOnDestroy_custom:
  "lookup methods_ISP CustomNavBarComponent ngOnDestroy = Some CustomNavBarComponent_LSP_ngOnDestroy"
  by (simp add: lookup_declared)

lemma lookup_ISP_displayLinks_custom:
  "lookup methods_ISP CustomNavBarComponent displayLinks = Some CustomNavBarComponent_ISP_displayLinks"
  by (simp add: lookup_declared)

lemma OCP_ngOnDestroy_effect:
  "NavBarComponentComponent_OCP_ngOnDestroy this out = (this, out @ [''Hell Bhie!''])"
  by (simp add: NavBarComponentComponent_OCP_ngOnDestroy_def console_log_def)

lemma LSP_ngOnDestroy_effect:
  "CustomNavBarComponent_LSP_ngOnDestroy this out =
     (this, out @ [''Hell Bhie!'', ''CustomNavBarComponent is being destroyed with extra cleanup!''])"
  by (simp add: CustomNavBarComponent_LSP_ngOnDestroy_def OCP_ngOnDestroy_effect console_log_def)

lemma effect_alone_DIP:
  "effect_alone methods_DIP this m =
     (case m of
        displayLinks \<Rightarrow> [''Displaying default navbar links'']
      | ngOnDestroy \<Rightarrow> [''NavBarService cleanup performed!'', ''NavBarComponent cleanup performed!''])"
  by (cases m) (simp_all add: effect_alone_def invoke_DIP_displayLinks invoke_DIP_ngOnDestroy)

lemma invoke_DIP_effect_alone:
  "invoke methods_DIP this m out = Inr (this, out @ effect_alone methods_DIP this m)"
  by (cases m) (simp_all add: effect_alone_DIP invoke_DIP_displayLinks invoke_DIP_ngOnDestroy)

lemma NavBarService_call_effect:
  "NavBarService_call m this out =
     out @ (case m of
              displayLinks \<Rightarrow> [''Displaying default navbar links'']
            | ngOnDestroy \<Rightarrow> [''NavBarService cleanup performed!''])"
  by (cases m) (simp_all add: NavBarService_displayLinks_def NavBarService_ngOnDestroy_def console_log_def)

lemma service_run_append:
  "service_run (ms @ ns) this out = service_run ns this (service_run ms this out)"
  by (induction ms arbitrary: out) simp_all

lemma effect_alone_LSP:
  "effect_alone methods_LSP obj m =
     (case m of
        displayLinks \<Rightarrow> []
      | ngOnDestroy \<Rightarrow>
          (case klass obj of
             NavBarComponentComponent \<Rightarrow> [''Hell Bhie!'']
           | CustomNavBarComponent \<Rightarrow>
               [''Hell Bhie!'', ''CustomNavBarComponent is being destroyed with extra cleanup!'']))"
  by (cases m; cases "klass obj")
    (simp_all add: effect_alone_def invoke_def lookup_declared lookup_inherited lookup_undefined
      OCP_ngOnDestroy_effect LSP_ngOnDestroy_effect)

lemma effect_alone_ISP:
  "effect_alone methods_ISP obj m =
     (case klass obj of
        NavBarComponentComponent \<Rightarrow>
          (case m of
             displayLinks \<Rightarrow> [''Displaying default navbar links'']
           | ngOnDestroy \<Rightarrow> [''Hell Bhie!''])
      | CustomNavBarComponent \<Rightarrow>
          (case m of
             displayLinks \<Rightarrow> [''Displaying custom navbar links'']
           | ngOnDestroy \<Rightarrow>
               [''Hell Bhie!'', ''CustomNavBarComponent is being destroyed with extra cleanup!'']))"
  by (cases m; cases "klass obj")
    (simp_all add: effect_alone_def invoke_def lookup_declared
      OCP_ngOnDestroy_effect LSP_ngOnDestroy_effect
      NavBarComponentComponent_ISP_displayLinks_def CustomNavBarComponent_ISP_displayLinks_def
      console_log_def)

section \<open>The claims\<close>

text \<open>
  C4. Constructing the base component \<^verbatim>\<open>NavBarComponentComponent\<close> and invoking its
  \<^verbatim>\<open>displayLinks\<close> returns normally, leaves the instance as constructed and writes
  exactly one message to the console, the default-links message.
\<close>

theorem C4_base_displayLinks_default:
  "invoke methods_DIP (new_NavBarComponentComponent svc) displayLinks out =
     Inr (new_NavBarComponentComponent svc, out @ [''Displaying default navbar links''])"
  by (rule invoke_DIP_displayLinks)

text \<open>
  C10. In the last revision every call of \<^verbatim>\<open>NavBarComponentComponent.ngOnDestroy\<close>
  writes the service's teardown message first and the component's own cleanup message
  directly after it: the two messages are the next two entries of the console, in that
  order.
\<close>

theorem C10_service_teardown_before_component_cleanup:
  "NavBarComponentComponent_ngOnDestroy this out =
     (this, out @ [''NavBarService cleanup performed!'', ''NavBarComponent cleanup performed!''])
   \<and> NavBarService_ngOnDestroy (navBarService this) out = out @ [''NavBarService cleanup performed!'']
   \<and> snd (NavBarComponentComponent_ngOnDestroy this out) ! length out
        = ''NavBarService cleanup performed!''
   \<and> snd (NavBarComponentComponent_ngOnDestroy this out) ! Suc (length out)
        = ''NavBarComponent cleanup performed!''"
  by (simp add: NavBarComponentComponent_ngOnDestroy_def NavBarService_ngOnDestroy_def
      console_log_def nth_append)

text \<open>
  C1, as the code has it. In the last revision \<^verbatim>\<open>CustomNavBarComponent\<close> declares no
  \<^verbatim>\<open>displayLinks\<close>: invoking it on a constructed instance runs the inherited
  \<^verbatim>\<open>NavBarComponentComponent.displayLinks\<close>, which delegates to the service, and writes
  exactly the default-links message. The custom-links message is written only by the
  override that the ISP revision of the README declares: no operation of the service
  writes it, no operation on an instance of either class writes it in the last revision
  or in the LSP revision, and in the ISP revision an operation writes it exactly when it
  is \<^verbatim>\<open>displayLinks\<close> on an instance of \<^verbatim>\<open>CustomNavBarComponent\<close>.
\<close>

theorem C1_custom_displayLinks_inherits_default:
  "invoke methods_DIP (new_CustomNavBarComponent svc) displayLinks out =
     Inr (new_CustomNavBarComponent svc, out @ [''Displaying default navbar links''])
   \<and> lookup methods_DIP CustomNavBarComponent displayLinks = Some NavBarComponentComponent_displayLinks
   \<and> invoke methods_ISP (new_object CustomNavBarComponent) displayLinks out =
       Inr (new_object CustomNavBarComponent, out @ [''Displaying custom navbar links''])
   \<and> methods_DIP CustomNavBarComponent displayLinks = None
   \<and> ''Displaying custom navbar links'' \<notin> set (NavBarService_call m svc [])
   \<and> ''Displaying custom navbar links'' \<notin> set (effect_alone methods_DIP this m)
   \<and> ''Displaying custom navbar links'' \<notin> set (effect_alone methods_LSP obj m)
   \<and> (''Displaying custom navbar links'' \<in> set (effect_alone methods_ISP obj m))
       = (klass obj = CustomNavBarComponent \<and> m = displayLinks)"
proof (intro conjI)
  show "invoke methods_DIP (new_CustomNavBarComponent svc) displayLinks out =
     Inr (new_CustomNavBarComponent svc, out @ [''Displaying default navbar links''])"
    by (rule invoke_DIP_displayLinks)
  show "lookup methods_DIP CustomNavBarComponent displayLinks = Some NavBarComponentComponent_displayLinks"
    by (rule lookup_DIP_displayLinks)
  show "invoke methods_ISP (new_object CustomNavBarComponent) displayLinks out =
       Inr (new_object CustomNavBarComponent, out @ [''Displaying custom navbar links''])"
    by (simp add: invoke_def new_object_def lookup_ISP_displayLinks_custom
        CustomNavBarComponent_ISP_displayLinks_def console_log_def)
  show "methods_DIP CustomNavBarComponent displayLinks = None"
    by simp
  show "''Displaying custom navbar links'' \<notin> set (NavBarService_call m svc [])"
    by (cases m) (simp_all add: NavBarService_call_effect)
  show "''Displaying custom navbar links'' \<notin> set (effect_alone methods_DIP this m)"
    by (cases m) (simp_all add: effect_alone_DIP)
  show "''Displaying custom navbar links'' \<notin> set (effect_alone methods_LSP obj m)"
    by (cases m; cases "klass obj") (simp_all add: effect_alone_LSP)
  show "(''Displaying custom navbar links'' \<in> set (effect_alone methods_ISP obj m))
       = (klass obj = CustomNavBarComponent \<and> m = displayLinks)"
    by (cases m; cases "klass obj") (simp_all add: effect_alone_ISP)
qed

text \<open>
  C1, as the specification states it, fails: on a freshly constructed derived component
  and an empty console, \<^verbatim>\<open>displayLinks\<close> writes the default-links message and not the
  custom-links message.
\<close>

theorem C1_custom_links_counterexample:
  "invoke methods_DIP (new_CustomNavBarComponent NavBarService) displayLinks [] =
     Inr (new_CustomNavBarComponent NavBarService, [''Displaying default navbar links''])
   \<and> invoke methods_DIP (new_CustomNavBarComponent NavBarService) displayLinks [] \<noteq>
     Inr (new_CustomNavBarComponent NavBarService, [''Displaying custom navbar links''])
   \<and> ''Displaying custom navbar links''
        \<notin> set (effect_alone methods_DIP (new_CustomNavBarComponent NavBarService) displayLinks)"
  by (simp add: invoke_DIP_displayLinks effect_alone_DIP)

text \<open>
  C3. In the overriding revisions of the README (LSP and ISP), destroying an instance of
  \<^verbatim>\<open>CustomNavBarComponent\<close> writes the base class's teardown message first and the
  derived extra-cleanup message second, and nothing else.
\<close>

theorem C3_historical_override_base_then_derived:
  "invoke methods_LSP (new_object CustomNavBarComponent) ngOnDestroy out =
     Inr (new_object CustomNavBarComponent,
          out @ [''Hell Bhie!'', ''CustomNavBarComponent is being destroyed with extra cleanup!''])
   \<and> invoke methods_ISP (new_object CustomNavBarComponent) ngOnDestroy out =
     Inr (new_object CustomNavBarComponent,
          out @ [''Hell Bhie!'', ''CustomNavBarComponent is being destroyed with extra cleanup!''])
   \<and> snd (CustomNavBarComponent_LSP_ngOnDestroy this out) =
       snd (NavBarComponentComponent_OCP_ngOnDestroy this out)
         @ [''CustomNavBarComponent is being destroyed with extra cleanup!'']"
  by (simp add: invoke_def new_object_def lookup_LSP_ngOnDestroy_custom
      lookup_ISP_ngOnDestroy_custom LSP_ngOnDestroy_effect OCP_ngOnDestroy_effect)

text \<open>
  C5. In the last revision \<^verbatim>\<open>CustomNavBarComponent\<close> declares neither \<^verbatim>\<open>displayLinks\<close>
  nor \<^verbatim>\<open>ngOnDestroy\<close>; both resolve to the members of \<^verbatim>\<open>NavBarComponentComponent\<close>, and
  for either operation, any service and any console, a derived instance writes what a
  base instance writes.
\<close>

theorem C5_custom_same_effects_as_base:
  "methods_DIP CustomNavBarComponent m = None
   \<and> lookup methods_DIP CustomNavBarComponent m = lookup methods_DIP NavBarComponentComponent m
   \<and> map_sum id snd (invoke methods_DIP (new_CustomNavBarComponent svc) m out) =
       map_sum id snd (invoke methods_DIP (new_NavBarComponentComponent svc) m out)
   \<and> effect_alone methods_DIP (new_CustomNavBarComponent svc) m =
       effect_alone methods_DIP (new_NavBarComponentComponent svc) m"
  by (cases m) (simp_all add: lookup_DIP_displayLinks lookup_DIP_ngOnDestroy
      invoke_DIP_displayLinks invoke_DIP_ngOnDestroy effect_alone_DIP)

text \<open>
  C2, as the code has it. In the last revision one call of \<^verbatim>\<open>ngOnDestroy\<close> on a component
  instance, base or derived, writes exactly two messages: the service's teardown message
  and then the component's cleanup message; the derived class declares no override and
  adds nothing. In the overriding revision of the README the base's \<^verbatim>\<open>ngOnDestroy\<close>
  writes exactly one message, and the derived override, which calls
  \<^verbatim>\<open>super.ngOnDestroy()\<close> first, writes exactly one more after the parent's.
\<close>

theorem C2_teardown_effects_per_revision:
  "invoke methods_DIP (new_NavBarComponentComponent svc) ngOnDestroy out =
     Inr (new_NavBarComponentComponent svc,
          out @ [''NavBarService cleanup performed!'', ''NavBarComponent cleanup performed!''])
   \<and> invoke methods_DIP (new_CustomNavBarComponent svc) ngOnDestroy out =
     Inr (new_CustomNavBarComponent svc,
          out @ [''NavBarService cleanup performed!'', ''NavBarComponent cleanup performed!''])
   \<and> invoke methods_LSP (new_object NavBarComponentComponent) ngOnDestroy out =
     Inr (new_object NavBarComponentComponent, out @ [''Hell Bhie!''])
   \<and> invoke methods_LSP (new_object CustomNavBarComponent) ngOnDestroy out =
     Inr (new_object CustomNavBarComponent,
          out @ [''Hell Bhie!'', ''CustomNavBarComponent is being destroyed with extra cleanup!''])"
proof (intro conjI)
  show "invoke methods_DIP (new_NavBarComponentComponent svc) ngOnDestroy out =
     Inr (new_NavBarComponentComponent svc,
          out @ [''NavBarService cleanup performed!'', ''NavBarComponent cleanup performed!''])"
    by (rule invoke_DIP_ngOnDestroy)
  show "invoke methods_DIP (new_CustomNavBarComponent svc) ngOnDestroy out =
     Inr (new_CustomNavBarComponent svc,
          out @ [''NavBarService cleanup performed!'', ''NavBarComponent cleanup performed!''])"
    by (rule invoke_DIP_ngOnDestroy)
  show "invoke methods_LSP (new_object NavBarComponentComponent) ngOnDestroy out =
     Inr (new_object NavBarComponentComponent, out @ [''Hell Bhie!''])"
    by (simp add: invoke_def new_object_def lookup_LSP_ngOnDestroy_base OCP_ngOnDestroy_effect)
  show "invoke methods_LSP (new_object CustomNavBarComponent) ngOnDestroy out =
     Inr (new_object CustomNavBarComponent,
          out @ [''Hell Bhie!'', ''CustomNavBarComponent is being destroyed with extra cleanup!''])"
    by (simp add: invoke_def new_object_def lookup_LSP_ngOnDestroy_custom LSP_ngOnDestroy_effect)
qed

text \<open>
  C2, as the specification states it, fails: one call of \<^verbatim>\<open>ngOnDestroy\<close> on a freshly
  constructed base component writes two messages, not one.
\<close>

theorem C2_one_teardown_effect_counterexample:
  "effect_alone methods_DIP (new_NavBarComponentComponent NavBarService) ngOnDestroy =
     [''NavBarService cleanup performed!'', ''NavBarComponent cleanup performed!'']
   \<and> length (effect_alone methods_DIP (new_NavBarComponentComponent NavBarService) ngOnDestroy) \<noteq> 1"
  by (simp add: effect_alone_DIP)

text \<open>
  C6. \<^verbatim>\<open>NavBarService\<close> is stateless: whatever operations ran before on the service, in
  whatever order and number, an invocation appends to the console exactly what it writes
  when it runs alone, and that is one fixed message per operation.
\<close>

theorem C6_service_stateless:
  "service_run (pre @ [m]) svc out = service_run pre svc out @ service_run [m] svc []
   \<and> service_run [m] svc [] =
       (case m of
          displayLinks \<Rightarrow> [''Displaying default navbar links'']
        | ngOnDestroy \<Rightarrow> [''NavBarService cleanup performed!''])
   \<and> service_run [m, m] svc out = service_run [m] svc out @ service_run [m] svc []"
  by (simp add: service_run_append NavBarService_call_effect)

text \<open>
  C7. For every sequence of N invocations on component instances held at any addresses,
  all delegating to the one service, the run returns normally, leaves every instance as
  it was and appends to the console the concatenation, in call order, of what each
  invocation writes when it runs alone; what an invocation writes does not depend on the
  instance that receives it.
\<close>

theorem C7_shared_service_independent_invocations:
  "run methods_DIP calls (insts, out) =
     Inr (insts, out @ concat (map (\<lambda>(i, m). effect_alone methods_DIP (insts i) m) calls))
   \<and> effect_alone methods_DIP this m = effect_alone methods_DIP this' m"
proof
  show "run methods_DIP calls (insts, out) =
     Inr (insts, out @ concat (map (\<lambda>(i, m). effect_alone methods_DIP (insts i) m) calls))"
  proof (induction calls arbitrary: out)
    case Nil
    show ?case by simp
  next
    case (Cons call calls)
    obtain i m where call: "call = (i, m)"
      by (cases call)
    have "run methods_DIP (call # calls) (insts, out) =
            run methods_DIP calls (insts, out @ effect_alone methods_DIP (insts i) m)"
      by (simp add: call invoke_DIP_effect_alone)
    then show ?case
      by (simp add: Cons.IH call)
  qed
next
  show "effect_alone methods_DIP this m = effect_alone methods_DIP this' m"
    by (simp add: effect_alone_DIP)
qed

text \<open>
  C8. For every component instance of either class, \<^verbatim>\<open>displayLinks\<close> returns normally,
  returns the instance as it was, appends the one log message to the console and changes
  nothing before it; the link list declared for the instance's class is the same after
  the call.
\<close>

theorem C8_displayLinks_frame:
  "invoke methods_DIP this displayLinks out =
     Inr (this, out @ [''Displaying default navbar links''])
   \<and> (case invoke methods_DIP this displayLinks out of
         Inl e \<Rightarrow> False
       | Inr (this', out') \<Rightarrow>
           template (klass this') = template (klass this)
           \<and> navBarService this' = navBarService this
           \<and> take (length out) out' = out)"
  by (simp add: invoke_DIP_displayLinks)

text \<open>
  C9. In the last revision every operation is total: \<^verbatim>\<open>displayLinks\<close> and \<^verbatim>\<open>ngOnDestroy\<close>
  on a component of either class resolve to a method, never throw, return the instance
  unchanged and extend the console by their fixed messages; the service's two operations
  do the same on the console.
\<close>

theorem C9_operations_total:
  "invoke methods_DIP this m out =
     Inr (this, out @ (case m of
                         displayLinks \<Rightarrow> [''Displaying default navbar links'']
                       | ngOnDestroy \<Rightarrow> [''NavBarService cleanup performed!'',
                                          ''NavBarComponent cleanup performed!'']))
   \<and> (\<forall>e. invoke methods_DIP this m out \<noteq> Inl e)
   \<and> NavBarService_call m svc out =
       out @ (case m of
                displayLinks \<Rightarrow> [''Displaying default navbar links'']
              | ngOnDestroy \<Rightarrow> [''NavBarService cleanup performed!''])"
  by (cases m) (simp_all add: invoke_DIP_displayLinks invoke_DIP_ngOnDestroy
      NavBarService_call_effect)

end
